theory Spec2Isabelle
  imports Complex_Main "HOL-Library.Sublist"
begin

section \<open>Deserialized JSON values\<close>

text \<open>
  Every parser entry point receives one already-deserialized JSON value, and span metadata is
  a JSON object. An object is an association list read with \<open>map_of\<close>; a deserialized object
  holds each key once. JavaScript's \<open>undefined\<close> is not a JSON value: where a property read can
  yield it, the result is a \<open>json option\<close> and \<open>None\<close> stands for \<open>undefined\<close>. A number is
  the value of the deserialized double; only whether it is zero matters to the parsers.
\<close>

datatype json =
    JNull
  | JBool bool
  | JNum rat
  | JStr string
  | JArr "json list"
  | JObj "(string \<times> json) list"

section \<open>Execution context (src/src/index.ts, lines 927-1101)\<close>

datatype SpanStatus = RUNNING | COMPLETED | FAILED

record ArtifactRef =
  artifact_id :: string
  label :: string
  content_hash :: string
  content_type :: string
  size_bytes :: nat
  created_at :: string

record AgentSpan =
  type :: string
  agent_name :: string
  repo_name :: string
  span_id :: string
  parent_span_id :: string
  start_time :: string
  end_time :: "string option"
  status :: SpanStatus
  failure_reason :: "string option"
  artifacts :: "ArtifactRef list"
  metadata :: "(string \<times> json) list option"

text \<open>
  \<open>agent_spans\<close> is an array of references to span objects: the object \<open>startAgentSpan\<close> pushes
  is the one it hands to the caller, and \<open>completeAgentSpan\<close>, \<open>failAgentSpan\<close> and
  \<open>attachArtifact\<close> mutate whatever span object they are given. A reference is a natural
  number and the objects live in a store.
\<close>

record RepoSpan =
  type :: string
  repo_name :: string
  span_id :: string
  parent_span_id :: string
  execution_id :: string
  start_time :: string
  end_time :: "string option"
  status :: SpanStatus
  failure_reason :: "string option"
  agent_spans :: "nat list"

record 'a ExecutionResponse =
  result :: 'a
  execution :: RepoSpan

record ExecutionContext =
  executionId :: string
  repoSpan :: RepoSpan

text \<open>
  The program state an \<open>ExecutionContext\<close> method runs in: the store of span objects, the next
  reference \<open>new\<close> hands out (every reference below it is taken), and the context itself.
  \<open>randomUUID()\<close> and \<open>new Date().toISOString()\<close> read the environment; each method takes the
  values these calls return as arguments \<open>uuid\<close> and \<open>now\<close>.
\<close>

record State =
  heap :: "nat \<Rightarrow> AgentSpan"
  next_ref :: nat
  this :: ExecutionContext

definition agent_refs :: "State \<Rightarrow> nat list" where
  "agent_refs st = agent_spans (repoSpan (this st))"

definition set_repoSpan :: "State \<Rightarrow> RepoSpan \<Rightarrow> State" where
  "set_repoSpan st r = st\<lparr>this := (this st)\<lparr>repoSpan := r\<rparr>\<rparr>"

definition constructor ::
  "(nat \<Rightarrow> AgentSpan) \<Rightarrow> nat \<Rightarrow> string \<Rightarrow> string \<Rightarrow> string \<Rightarrow> string \<Rightarrow> State" where
  "constructor h n executionId' parentSpanId uuid now =
     \<lparr>heap = h, next_ref = n,
      this = \<lparr>executionId = executionId',
              repoSpan = \<lparr>RepoSpan.type = ''repo'', repo_name = ''llm-forge'', span_id = uuid,
                          parent_span_id = parentSpanId, execution_id = executionId',
                          start_time = now, end_time = None, status = RUNNING,
                          failure_reason = None, agent_spans = []\<rparr>\<rparr>\<rparr>"

definition startAgentSpan ::
  "State \<Rightarrow> string \<Rightarrow> (string \<times> json) list option \<Rightarrow> string \<Rightarrow> string \<Rightarrow> nat \<times> State" where
  "startAgentSpan st agentName metadata' uuid now =
     (let span' = \<lparr>AgentSpan.type = ''agent'', agent_name = agentName, repo_name = ''llm-forge'',
                   span_id = uuid, parent_span_id = RepoSpan.span_id (repoSpan (this st)),
                   start_time = now, end_time = None, status = RUNNING, failure_reason = None,
                   artifacts = [], metadata = metadata'\<rparr>;
          r = next_ref st;
          st' = st\<lparr>heap := (heap st)(r := span'), next_ref := Suc r\<rparr>
      in (r, set_repoSpan st' ((repoSpan (this st))\<lparr>agent_spans := agent_refs st @ [r]\<rparr>)))"

definition completeAgentSpan :: "State \<Rightarrow> nat \<Rightarrow> string \<Rightarrow> State" where
  "completeAgentSpan st span' now =
     st\<lparr>heap := (heap st)(span' := (heap st span')\<lparr>AgentSpan.end_time := Some now,
                                                  AgentSpan.status := COMPLETED\<rparr>)\<rparr>"

definition failAgentSpan :: "State \<Rightarrow> nat \<Rightarrow> string \<Rightarrow> string \<Rightarrow> State" where
  "failAgentSpan st span' reason now =
     st\<lparr>heap := (heap st)(span' := (heap st span')\<lparr>AgentSpan.end_time := Some now,
                                                  AgentSpan.status := FAILED,
                                                  AgentSpan.failure_reason := Some reason\<rparr>)\<rparr>"

definition attachArtifact :: "State \<Rightarrow> nat \<Rightarrow> ArtifactRef \<Rightarrow> State" where
  "attachArtifact st span' artifact =
     st\<lparr>heap := (heap st)(span' := (heap st span')\<lparr>artifacts := artifacts (heap st span') @ [artifact]\<rparr>)\<rparr>"

text \<open>\<open>Array.prototype.join\<close> on an array of strings.\<close>

fun join :: "string \<Rightarrow> string list \<Rightarrow> string" where
  "join sep [] = []"
| "join sep [x] = x"
| "join sep (x # y # ys) = x @ sep @ join sep (y # ys)"

text \<open>A template literal prints an absent (\<open>undefined\<close>) string as the word \<open>undefined\<close>.\<close>

definition template_str :: "string option \<Rightarrow> string" where
  "template_str v = (case v of None \<Rightarrow> ''undefined'' | Some s \<Rightarrow> s)"

definition failure_line :: "AgentSpan \<Rightarrow> string" where
  "failure_line s = agent_name s @ '': '' @ template_str (AgentSpan.failure_reason s)"

definition finalize :: "State \<Rightarrow> string \<Rightarrow> RepoSpan \<times> State" where
  "finalize st now =
     (let r0 = (repoSpan (this st))\<lparr>end_time := Some now\<rparr>;
          spans = map (heap st) (agent_spans r0)
      in if length (agent_spans r0) = 0 then
           (let r1 = r0\<lparr>status := FAILED, failure_reason := Some ''No agent spans produced''\<rparr>
            in (r1, set_repoSpan st r1))
         else
           (let anyFailed = list_ex (\<lambda>s. AgentSpan.status s = FAILED) spans;
                r1 = r0\<lparr>status := (if anyFailed then FAILED else COMPLETED)\<rparr>;
                r2 = (if anyFailed
                      then r1\<lparr>failure_reason :=
                              Some (join ''; '' (map failure_line
                                     (filter (\<lambda>s. AgentSpan.status s = FAILED) spans)))\<rparr>
                      else r1)
            in (r2, set_repoSpan st r2)))"

definition buildResponse :: "State \<Rightarrow> 'a \<Rightarrow> string \<Rightarrow> 'a ExecutionResponse \<times> State" where
  "buildResponse st result' now =
     (case finalize st now of (execution', st') \<Rightarrow>
        (\<lparr>result = result', execution = execution'\<rparr>, st'))"

text \<open>The methods of the class, as the operations a caller can apply to a context.\<close>

datatype Op =
    StartAgentSpan string "(string \<times> json) list option" string string
  | CompleteAgentSpan nat string
  | FailAgentSpan nat string string
  | AttachArtifact nat ArtifactRef
  | Finalize string
  | BuildResponse json string

fun step :: "State \<Rightarrow> Op \<Rightarrow> State" where
  "step st (StartAgentSpan agentName md uuid now) = snd (startAgentSpan st agentName md uuid now)"
| "step st (CompleteAgentSpan r now) = completeAgentSpan st r now"
| "step st (FailAgentSpan r reason now) = failAgentSpan st r reason now"
| "step st (AttachArtifact r artifact) = attachArtifact st r artifact"
| "step st (Finalize now) = snd (finalize st now)"
| "step st (BuildResponse res now) = snd (buildResponse st res now)"

text \<open>
  The span hierarchy: every span of the repo span is an allocated object whose parent is the
  repo span and whose repository is \<open>llm-forge\<close>.
\<close>

definition hierarchy_inv :: "State \<Rightarrow> bool" where
  "hierarchy_inv st =
     list_all (\<lambda>r. r < next_ref st
                  \<and> AgentSpan.parent_span_id (heap st r) = RepoSpan.span_id (repoSpan (this st))
                  \<and> AgentSpan.repo_name (heap st r) = ''llm-forge'')
              (agent_refs st)"

subsection \<open>Header extraction\<close>



record ExecutionHeaders =
  executionId :: string
  parentSpanId :: string




section \<open>Streaming-chunk parsers (src/tests/reports/streaming-qa-report.md)\<close>

subsection \<open>JavaScript operations the parsers apply to a chunk\<close>

datatype exn = TypeError | SyntaxError

text \<open>Sequencing of computations that may throw: the first exception aborts the rest.\<close>

definition and_then :: "exn + 'a \<Rightarrow> ('a \<Rightarrow> exn + 'b) \<Rightarrow> exn + 'b" where
  "and_then m f = (case m of Inl e \<Rightarrow> Inl e | Inr v \<Rightarrow> f v)"

text \<open>\<open>a && b\<close> and \<open>a || b\<close> on booleans: \<open>b\<close> counts only when \<open>a\<close> does not decide.\<close>

definition and_also :: "exn + bool \<Rightarrow> exn + bool \<Rightarrow> exn + bool" where
  "and_also a b = and_then a (\<lambda>x. if x then b else Inr False)"

definition or_else :: "exn + bool \<Rightarrow> exn + bool \<Rightarrow> exn + bool" where
  "or_else a b = and_then a (\<lambda>x. if x then Inr True else b)"

fun truthy :: "json \<Rightarrow> bool" where
  "truthy JNull = False"
| "truthy (JBool b) = b"
| "truthy (JNum n) = (n \<noteq> 0)"
| "truthy (JStr s) = (s \<noteq> [])"
| "truthy (JArr xs) = True"
| "truthy (JObj kvs) = True"

definition truthy_opt :: "json option \<Rightarrow> bool" where
  "truthy_opt v = (case v of None \<Rightarrow> False | Some j \<Rightarrow> truthy j)"

text \<open>\<open>a || b\<close> on values: \<open>a\<close> when it is truthy, else \<open>b\<close>.\<close>

definition or_default :: "json option \<Rightarrow> json \<Rightarrow> json" where
  "or_default a b = (case a of None \<Rightarrow> b | Some v \<Rightarrow> if truthy v then v else b)"

fun js_typeof :: "json \<Rightarrow> string" where
  "js_typeof JNull = ''object''"
| "js_typeof (JBool b) = ''boolean''"
| "js_typeof (JNum n) = ''number''"
| "js_typeof (JStr s) = ''string''"
| "js_typeof (JArr xs) = ''object''"
| "js_typeof (JObj kvs) = ''object''"

text \<open>
  The property read \<open>v.k\<close>. It throws on \<open>null\<close> and \<open>undefined\<close>. The parsers read only the
  names \<open>error\<close>, \<open>token\<close>, \<open>choices\<close>, \<open>generated_text\<close>, \<open>conversation\<close>, \<open>details\<close>,
  \<open>finish_reason\<close>, \<open>id\<close>, \<open>model\<close>, \<open>delta\<close>, \<open>content\<close>, \<open>index\<close>, \<open>text\<close>, \<open>tool_calls\<close>,
  \<open>function\<close>, \<open>name\<close> and \<open>arguments\<close>; no prototype of a deserialized value defines one of
  them, so the read finds an object's own field and is \<open>undefined\<close> on an array, a string, a
  number and a boolean.
\<close>

fun get_prop :: "json option \<Rightarrow> string \<Rightarrow> exn + json option" where
  "get_prop None k = Inl TypeError"
| "get_prop (Some JNull) k = Inl TypeError"
| "get_prop (Some (JObj kvs)) k = Inr (map_of kvs k)"
| "get_prop (Some (JBool b)) k = Inr None"
| "get_prop (Some (JNum n)) k = Inr None"
| "get_prop (Some (JStr s)) k = Inr None"
| "get_prop (Some (JArr xs)) k = Inr None"

text \<open>
  Optional chaining \<open>v?.k\<close>: \<open>undefined\<close> when \<open>v\<close> is \<open>null\<close> or \<open>undefined\<close>, else \<open>v.k\<close>, which
  does not throw there.
\<close>

fun opt_prop :: "json option \<Rightarrow> string \<Rightarrow> json option" where
  "opt_prop None k = None"
| "opt_prop (Some JNull) k = None"
| "opt_prop (Some (JObj kvs)) k = map_of kvs k"
| "opt_prop (Some (JBool b)) k = None"
| "opt_prop (Some (JNum n)) k = None"
| "opt_prop (Some (JStr s)) k = None"
| "opt_prop (Some (JArr xs)) k = None"

text \<open>
  The operator \<open>k in v\<close>, for the same field names: it throws when \<open>v\<close> is not an object (or
  array), and an array has none of these names.
\<close>

fun in_op :: "string \<Rightarrow> json \<Rightarrow> exn + bool" where
  "in_op k (JObj kvs) = Inr (map_of kvs k \<noteq> None)"
| "in_op k (JArr xs) = Inr False"
| "in_op k JNull = Inl TypeError"
| "in_op k (JBool b) = Inl TypeError"
| "in_op k (JNum n) = Inl TypeError"
| "in_op k (JStr s) = Inl TypeError"

definition isArray :: "json option \<Rightarrow> bool" where
  "isArray v = (case v of Some (JArr xs) \<Rightarrow> True | _ \<Rightarrow> False)"

text \<open>
  The values a \<open>for ... of\<close> loop visits: the elements of an array, the characters of a
  string (one \<open>char\<close> each); any other deserialized value is not iterable.
\<close>

definition iterate :: "json option \<Rightarrow> exn + json list" where
  "iterate v =
     (case v of
        Some (JArr xs) \<Rightarrow> Inr xs
      | Some (JStr s) \<Rightarrow> Inr (map (\<lambda>c. JStr [c]) s)
      | _ \<Rightarrow> Inl TypeError)"

subsection \<open>Unified stream types\<close>

datatype NormalizedStopReason = STOP | LENGTH | TOOL_CALLS | CONTENT_FILTER | ERROR | UNKNOWN

datatype StreamEventType =
    content_block_start
  | content_block_delta
  | content_block_stop
  | message_start
  | message_delta
  | message_stop
  | error_event

record StreamDelta =
  text' :: "json option"
  stopReason :: "NormalizedStopReason option"

record 'c StreamChunk =
  type :: StreamEventType
  delta :: "StreamDelta option"
  contentBlock :: "'c option"
  index :: "json option"

record StreamMetadata =
  timestamp :: string
  complete :: "bool option"

record ('e, 'm, 'c) UnifiedStreamResponse =
  id' :: json
  provider :: string
  model :: 'm
  chunks :: "'c StreamChunk list"
  metadata :: StreamMetadata
  error :: "'e option"

text \<open>
  The members of \<open>BaseProviderParser\<close> and the built-in \<open>JSON.parse\<close> that the parsers call.
  Their code is not part of the sources, so they are parameters: \<open>generateId\<close> and
  \<open>getCurrentTimestamp\<close> are the values the two calls return, the others are arbitrary total
  functions (\<open>'e\<close> is \<open>NormalizedError\<close>, \<open>'m\<close> is \<open>ModelInfo\<close>, \<open>'c\<close> a content block).
\<close>

record ('e, 'm, 'c) Helpers =
  this_provider :: string
  generateId :: string
  getCurrentTimestamp :: string
  extractError :: "json \<Rightarrow> 'e option"
  extractModelInfo :: "json \<Rightarrow> 'm"
  createModelInfo :: "json \<Rightarrow> string \<Rightarrow> 'm"
  normalizeStopReason :: "json \<Rightarrow> NormalizedStopReason"
  createToolUseContent :: "json option \<Rightarrow> json option \<Rightarrow> json \<Rightarrow> 'c"
  JSON_parse :: "json \<Rightarrow> exn + json"

definition text_delta :: "json option \<Rightarrow> json option \<Rightarrow> 'c StreamChunk" where
  "text_delta t i =
     \<lparr>StreamChunk.type = content_block_delta,
      delta = Some \<lparr>text' = t, stopReason = None\<rparr>,
      contentBlock = None, index = i\<rparr>"

definition stop_event :: "NormalizedStopReason \<Rightarrow> 'c StreamChunk" where
  "stop_event r =
     \<lparr>StreamChunk.type = message_stop,
      delta = Some \<lparr>text' = None, stopReason = Some r\<rparr>,
      contentBlock = None, index = None\<rparr>"

definition block_start :: "'c \<Rightarrow> json \<Rightarrow> 'c StreamChunk" where
  "block_start b i =
     \<lparr>StreamChunk.type = content_block_start, delta = None,
      contentBlock = Some b, index = Some i\<rparr>"

subsection \<open>HuggingFace provider (report lines 894-985)\<close>

text \<open>
  The result pairs the returned boolean with the diagnostics passed to \<open>this.addError\<close>.
\<close>

definition HuggingFace_validateStreamChunk :: "json \<Rightarrow> exn + bool \<times> string list" where
  "HuggingFace_validateStreamChunk chunk =
     (if \<not> truthy chunk \<or> js_typeof chunk \<noteq> ''object''
      then Inr (False, [''Invalid chunk: must be an object''])
      else
        and_then (get_prop (Some chunk) ''error'') (\<lambda>err.
          if truthy_opt err then Inr (True, [])
          else
            and_then (in_op ''token'' chunk) (\<lambda>hasToken.
              if hasToken then Inr (True, [])
              else
                and_then (and_also (in_op ''choices'' chunk)
                            (and_then (get_prop (Some chunk) ''choices'')
                               (\<lambda>c. Inr (isArray c)))) (\<lambda>tgi.
                  if tgi then Inr (True, [])
                  else
                    and_then (or_else (in_op ''generated_text'' chunk)
                                (in_op ''conversation'' chunk)) (\<lambda>conversational.
                      if conversational then Inr (True, [])
                      else Inr (False, [''Invalid chunk: unrecognized format'']))))))"

text \<open>The body of the loop over \<open>choices\<close>: the events one choice pushes.\<close>

definition HuggingFace_choice ::
  "('e, 'm, 'c) Helpers \<Rightarrow> json \<Rightarrow> exn + 'c StreamChunk list" where
  "HuggingFace_choice h choice =
     and_then (get_prop (Some choice) ''delta'') (\<lambda>d.
     and_then (if truthy_opt (opt_prop d ''content'')
               then and_then (get_prop (Some choice) ''index'') (\<lambda>i.
                      Inr [text_delta (opt_prop d ''content'') (Some (or_default i (JNum 0)))])
               else Inr []) (\<lambda>pushed.
     and_then (get_prop (Some choice) ''finish_reason'') (\<lambda>fr.
       Inr (pushed @
            (case fr of
               None \<Rightarrow> []
             | Some r \<Rightarrow> if truthy r then [stop_event (normalizeStopReason h r)] else [])))))"

fun HuggingFace_choices ::
  "('e, 'm, 'c) Helpers \<Rightarrow> json list \<Rightarrow> exn + 'c StreamChunk list" where
  "HuggingFace_choices h [] = Inr []"
| "HuggingFace_choices h (choice # rest) =
     and_then (HuggingFace_choice h choice) (\<lambda>pushed.
     and_then (HuggingFace_choices h rest) (\<lambda>more. Inr (pushed @ more)))"

definition HuggingFace_parseStreamChunk ::
  "('e, 'm, 'c) Helpers \<Rightarrow> json \<Rightarrow> exn + ('e, 'm, 'c) UnifiedStreamResponse" where
  "HuggingFace_parseStreamChunk h chunk =
     (let error' = extractError h chunk in
      and_then (and_also (in_op ''choices'' chunk)
                  (and_then (get_prop (Some chunk) ''choices'') (\<lambda>c. Inr (isArray c)))) (\<lambda>isTGI.
      and_then (in_op ''token'' chunk) (\<lambda>isTokenBased.
      and_then (in_op ''conversation'' chunk) (\<lambda>isConversational.
      and_then (if isTGI
                then and_then (get_prop (Some chunk) ''choices'') (\<lambda>choices.
                     and_then (iterate choices) (HuggingFace_choices h))
                else if isTokenBased
                then and_then (get_prop (Some chunk) ''token'') (\<lambda>token.
                       Inr (if truthy_opt (opt_prop token ''text'')
                            then [text_delta (opt_prop token ''text'') None] else []))
                else Inr []) (\<lambda>chunks'.
      and_then (get_prop (Some chunk) ''generated_text'') (\<lambda>generated.
      and_then (if truthy_opt generated then Inr True
                else and_then (get_prop (Some chunk) ''details'') (\<lambda>details.
                       Inr (truthy_opt (opt_prop details ''finish_reason'')))) (\<lambda>isComplete.
      and_then (get_prop (Some chunk) ''id'') (\<lambda>i.
        Inr \<lparr>id' = or_default i (JStr (generateId h)),
             provider = this_provider h,
             model = extractModelInfo h chunk,
             chunks = chunks',
             metadata = \<lparr>timestamp = getCurrentTimestamp h, complete = Some isComplete\<rparr>,
             error = error'\<rparr>))))))))"

subsection \<open>Together AI provider: the shipped method (report lines 994-1005)\<close>

definition Together_parseStreamChunk ::
  "('e, 'm, 'c) Helpers \<Rightarrow> json \<Rightarrow> exn + ('e, 'm, 'c) UnifiedStreamResponse" where
  "Together_parseStreamChunk h chunk =
     Inr \<lparr>id' = JStr (generateId h),
          provider = this_provider h,
          model = createModelInfo h (JStr ''unknown'') (this_provider h),
          chunks = [],
          metadata = \<lparr>timestamp = getCurrentTimestamp h, complete = None\<rparr>,
          error = None\<rparr>"

subsection \<open>Together AI provider: the repaired method (report lines 1010-1062)\<close>

definition Together_toolCall :: "('e, 'm, 'c) Helpers \<Rightarrow> json \<Rightarrow> exn + 'c StreamChunk" where
  "Together_toolCall h toolCall =
     and_then (get_prop (Some toolCall) ''id'') (\<lambda>tid.
     and_then (get_prop (Some toolCall) ''function'') (\<lambda>f.
     and_then (JSON_parse h (or_default (opt_prop f ''arguments'') (JStr ''{}''))) (\<lambda>parsed.
     and_then (get_prop (Some toolCall) ''index'') (\<lambda>i.
       Inr (block_start (createToolUseContent h tid (opt_prop f ''name'') parsed)
              (or_default i (JNum 0)))))))"

fun Together_toolCalls ::
  "('e, 'm, 'c) Helpers \<Rightarrow> json list \<Rightarrow> exn + 'c StreamChunk list" where
  "Together_toolCalls h [] = Inr []"
| "Together_toolCalls h (toolCall # rest) =
     and_then (Together_toolCall h toolCall) (\<lambda>pushed.
     and_then (Together_toolCalls h rest) (\<lambda>more. Inr (pushed # more)))"

definition Together_choice ::
  "('e, 'm, 'c) Helpers \<Rightarrow> json \<Rightarrow> exn + 'c StreamChunk list" where
  "Together_choice h choice =
     and_then (get_prop (Some choice) ''delta'') (\<lambda>d.
     and_then (if truthy_opt (opt_prop d ''content'')
               then and_then (get_prop (Some choice) ''index'') (\<lambda>i.
                      Inr [text_delta (opt_prop d ''content'') (Some (or_default i (JNum 0)))])
               else Inr []) (\<lambda>pushed.
     and_then (if truthy_opt (opt_prop d ''tool_calls'')
               then and_then (iterate (opt_prop d ''tool_calls'')) (Together_toolCalls h)
               else Inr []) (\<lambda>started.
     and_then (get_prop (Some choice) ''finish_reason'') (\<lambda>fr.
       Inr (pushed @ started @
            (case fr of
               None \<Rightarrow> []
             | Some r \<Rightarrow> if truthy r then [stop_event (normalizeStopReason h r)] else []))))))"

fun Together_choices ::
  "('e, 'm, 'c) Helpers \<Rightarrow> json list \<Rightarrow> exn + 'c StreamChunk list" where
  "Together_choices h [] = Inr []"
| "Together_choices h (choice # rest) =
     and_then (Together_choice h choice) (\<lambda>pushed.
     and_then (Together_choices h rest) (\<lambda>more. Inr (pushed @ more)))"

definition Together_parseStreamChunk_fixed ::
  "('e, 'm, 'c) Helpers \<Rightarrow> json \<Rightarrow> exn + ('e, 'm, 'c) UnifiedStreamResponse" where
  "Together_parseStreamChunk_fixed h chunk =
     (let error' = extractError h chunk in
      and_then (get_prop (Some chunk) ''choices'') (\<lambda>choices.
      and_then (if truthy_opt choices \<and> isArray choices
                then and_then (iterate choices) (Together_choices h)
                else Inr []) (\<lambda>chunks'.
      and_then (get_prop (Some chunk) ''id'') (\<lambda>i.
      and_then (get_prop (Some chunk) ''model'') (\<lambda>m.
        Inr \<lparr>id' = or_default i (JStr (generateId h)),
             provider = this_provider h,
             model = createModelInfo h (or_default m (JStr ''unknown'')) (this_provider h),
             chunks = chunks',
             metadata = \<lparr>timestamp = getCurrentTimestamp h, complete = None\<rparr>,
             error = error'\<rparr>)))))"

subsection \<open>Provider metadata against the stream methods (report lines 199-228)\<close>

record Capabilities =
  streaming :: bool
  functionCalling :: bool
  toolUse :: bool
  vision :: bool

record ProviderMetadata =
  capabilities :: Capabilities

text \<open>
  A provider class: its metadata and its two stream methods. \<open>BaseProviderParser\<close> declares
  the methods abstract; \<open>None\<close> is a class that does not implement one, and calling it fails.
\<close>

record ('e, 'm, 'c) ProviderParser =
  getMetadata :: ProviderMetadata
  validateStreamChunk :: "(json \<Rightarrow> exn + bool \<times> string list) option"
  parseStreamChunk ::
    "(('e, 'm, 'c) Helpers \<Rightarrow> json \<Rightarrow> exn + ('e, 'm, 'c) UnifiedStreamResponse) option"

definition HuggingFace_capabilities :: Capabilities where
  "HuggingFace_capabilities =
     \<lparr>streaming = True, functionCalling = False, toolUse = False, vision = True\<rparr>"

text \<open>
  The class as the report finds it (lines 199-228): nine methods present, the two stream
  methods missing, \<open>streaming: true\<close> in the metadata.
\<close>

definition HuggingFaceProvider :: "('e, 'm, 'c) ProviderParser" where
  "HuggingFaceProvider =
     \<lparr>getMetadata = \<lparr>capabilities = HuggingFace_capabilities\<rparr>,
      validateStreamChunk = None,
      parseStreamChunk = None\<rparr>"

text \<open>The class with the two methods of lines 894-985 added.\<close>

definition HuggingFaceProvider_completed :: "('e, 'm, 'c) ProviderParser" where
  "HuggingFaceProvider_completed =
     \<lparr>getMetadata = \<lparr>capabilities = HuggingFace_capabilities\<rparr>,
      validateStreamChunk = Some HuggingFace_validateStreamChunk,
      parseStreamChunk = Some HuggingFace_parseStreamChunk\<rparr>"

definition call_parseStreamChunk ::
  "('e, 'm, 'c) ProviderParser \<Rightarrow> ('e, 'm, 'c) Helpers \<Rightarrow> json
     \<Rightarrow> exn + ('e, 'm, 'c) UnifiedStreamResponse" where
  "call_parseStreamChunk p h chunk =
     (case parseStreamChunk p of None \<Rightarrow> Inl TypeError | Some parse \<Rightarrow> parse h chunk)"

definition call_validateStreamChunk ::
  "('e, 'm, 'c) ProviderParser \<Rightarrow> json \<Rightarrow> exn + bool \<times> string list" where
  "call_validateStreamChunk p chunk =
     (case validateStreamChunk p of None \<Rightarrow> Inl TypeError | Some validate \<Rightarrow> validate chunk)"

definition non_error_output ::
  "('e, 'm, 'c) ProviderParser \<Rightarrow> ('e, 'm, 'c) Helpers \<Rightarrow> json \<Rightarrow> bool" where
  "non_error_output p h chunk =
     (case call_parseStreamChunk p h chunk of Inl e \<Rightarrow> False | Inr r \<Rightarrow> error r = None)"

text \<open>
  Metadata truthfulness over a list of documented chunk shapes: a provider that reports
  \<open>streaming\<close> parses at least one of them to a response without error.
\<close>

definition metadata_truthful ::
  "('e, 'm, 'c) ProviderParser \<Rightarrow> ('e, 'm, 'c) Helpers \<Rightarrow> json list \<Rightarrow> bool" where
  "metadata_truthful p h shapes =
     (if streaming (capabilities (getMetadata p)) then list_ex (non_error_output p h) shapes
      else True)"

subsection \<open>Helpers described by the specification only\<close>

text \<open>
  Modelled from the spec: the shared finish-reason normalization (\<open>normalizeStopReason\<close>,
  called at report lines 956 and 1046; its code and its table are not in the sources).
  Section 4.6 describes a single mapping table from provider-native finish-reason strings
  to \<open>NormalizedStopReason\<close>, and section 3 says that unmapped values fall to \<open>unknown\<close>
  rather than failing. The table is a parameter.
\<close>

definition normalizeStopReason_spec ::
  "(string \<times> NormalizedStopReason) list \<Rightarrow> string \<Rightarrow> NormalizedStopReason" where
  "normalizeStopReason_spec table reason =
     (case map_of table reason of None \<Rightarrow> UNKNOWN | Some r \<Rightarrow> r)"

text \<open>
  Modelled from the spec: error extraction (\<open>extractError\<close>, called at report lines 933 and
  1014; its code is not in the sources). Section 4.3: the top-level payload's \<open>error\<close> object,
  when present, is extracted. The extracted error is the \<open>error\<close> value itself here; its
  classification into a \<open>NormalizedError\<close> is left out.
\<close>

definition extractError_spec :: "json \<Rightarrow> json option" where
  "extractError_spec chunk = (case chunk of JObj kvs \<Rightarrow> map_of kvs ''error'' | _ \<Rightarrow> None)"

subsection \<open>What the specification calls a field\<close>

definition field_of :: "json \<Rightarrow> string \<Rightarrow> json option" where
  "field_of x k = (case x of JObj kvs \<Rightarrow> map_of kvs k | _ \<Rightarrow> None)"

definition has_field :: "json \<Rightarrow> string \<Rightarrow> bool" where
  "has_field x k = (field_of x k \<noteq> None)"

definition has_array_field :: "json \<Rightarrow> string \<Rightarrow> bool" where
  "has_array_field x k = isArray (field_of x k)"

section \<open>Concrete inputs\<close>

text \<open>The chunks of the specification's scenarios A, B and D.\<close>

definition scenario_A :: json where
  "scenario_A = JObj [(''token'', JObj [(''text'', JStr ''Hello'')])]"

definition scenario_B :: json where
  "scenario_B =
     JObj [(''choices'',
            JArr [JObj [(''index'', JNum 0), (''delta'', JObj [(''content'', JStr ''Hi'')])],
                  JObj [(''index'', JNum 0), (''delta'', JObj []),
                        (''finish_reason'', JStr ''stop'')]])]"

definition scenario_D :: json where
  "scenario_D =
     JObj [(''error'', JObj [(''message'', JStr ''rate limited''),
                             (''type'', JStr ''rate_limit_error'')])]"

text \<open>An error chunk that also carries content, a chunk whose only choice is \<open>null\<close>, and a
  chunk whose \<open>error\<close> field is \<open>null\<close>.\<close>

definition error_with_choices :: json where
  "error_with_choices =
     JObj [(''error'', JObj [(''message'', JStr ''rate limited'')]),
           (''choices'', JArr [JObj [(''index'', JNum 0),
                                     (''delta'', JObj [(''content'', JStr ''Hi'')])]])]"

definition null_choice :: json where
  "null_choice = JObj [(''choices'', JArr [JNull])]"

definition null_error :: json where
  "null_error = JObj [(''error'', JNull)]"

text \<open>A chunk with none of the five fields the validator looks for.\<close>

definition unrecognised_chunk :: json where
  "unrecognised_chunk = JObj [(''data'', JStr ''x'')]"

definition example_table :: "(string \<times> NormalizedStopReason) list" where
  "example_table = [(''stop'', STOP), (''length'', LENGTH)]"

text \<open>
  Concrete helpers: the error extraction and the finish-reason lookup described by the
  specification, over a table of two entries; model info and tool-use content are the JSON
  values they are built from; \<open>JSON.parse\<close> is cut down to the text \<open>{}\<close>.
\<close>

definition example_helpers :: "(json, json, json) Helpers" where
  "example_helpers =
     \<lparr>this_provider = ''huggingface'',
      generateId = ''generated-id'',
      getCurrentTimestamp = ''2025-11-08T00:00:00.000Z'',
      extractError = extractError_spec,
      extractModelInfo = (\<lambda>chunk. or_default (field_of chunk ''model'') (JStr ''unknown'')),
      createModelInfo = (\<lambda>m p. m),
      normalizeStopReason =
        (\<lambda>v. case v of JStr s \<Rightarrow> normalizeStopReason_spec example_table s | _ \<Rightarrow> UNKNOWN),
      createToolUseContent = (\<lambda>tid name input. input),
      JSON_parse = (\<lambda>v. if v = JStr ''{}'' then Inr (JObj []) else Inl SyntaxError)\<rparr>"

text \<open>A context with two spans, the first completed and the second failed.\<close>

definition blank_span :: AgentSpan where
  "blank_span =
     \<lparr>AgentSpan.type = ''agent'', agent_name = [], repo_name = [], span_id = [],
      parent_span_id = [], start_time = [], end_time = None, status = RUNNING,
      failure_reason = None, artifacts = [], metadata = None\<rparr>"

definition example_context :: State where
  "example_context =
     constructor (\<lambda>r. blank_span) 0 ''exec-1'' ''parent-1'' ''repo-span'' ''t0''"

definition example_ops :: "Op list" where
  "example_ops =
     [StartAgentSpan ''agent-1'' None ''span-1'' ''t1'',
      StartAgentSpan ''agent-2'' None ''span-2'' ''t2'',
      CompleteAgentSpan 0 ''t3'',
      FailAgentSpan 1 ''Broke'' ''t4'']"

definition example_run :: State where
  "example_run = foldl step example_context example_ops"

text \<open>A context with three spans: the first and the third failed, the second completed.\<close>

definition failing_ops :: "Op list" where
  "failing_ops =
     [StartAgentSpan ''agent-1'' None ''span-1'' ''t1'',
      StartAgentSpan ''agent-2'' None ''span-2'' ''t2'',
      StartAgentSpan ''agent-3'' None ''span-3'' ''t3'',
      FailAgentSpan 0 ''Error 1'' ''t4'',
      CompleteAgentSpan 1 ''t5'',
      FailAgentSpan 2 ''Error 3'' ''t6'']"

definition failing_run :: State where
  "failing_run = foldl step example_context failing_ops"


section \<open>Execution context: properties\<close>

subsection \<open>Finalizing the repo span\<close>

lemma agent_refs_set_repoSpan [simp]: "agent_refs (set_repoSpan st r) = agent_spans r"
  by (simp add: agent_refs_def set_repoSpan_def)

lemma heap_set_repoSpan [simp]: "heap (set_repoSpan st r) = heap st"
  by (simp add: set_repoSpan_def)

lemma next_ref_set_repoSpan [simp]: "next_ref (set_repoSpan st r) = next_ref st"
  by (simp add: set_repoSpan_def)

lemma repoSpan_set_repoSpan [simp]: "repoSpan (this (set_repoSpan st r)) = r"
  by (simp add: set_repoSpan_def)

lemma finalize_returns_repoSpan:
  "repoSpan (this (snd (finalize st now))) = fst (finalize st now)"
  by (simp add: finalize_def Let_def)

lemma finalize_heap [simp]: "heap (snd (finalize st now)) = heap st"
  by (simp add: finalize_def Let_def)

lemma finalize_next_ref [simp]: "next_ref (snd (finalize st now)) = next_ref st"
  by (simp add: finalize_def Let_def)

lemma finalize_agent_spans [simp]: "agent_spans (fst (finalize st now)) = agent_refs st"
  by (simp add: finalize_def Let_def agent_refs_def)

lemma finalize_agent_refs [simp]: "agent_refs (snd (finalize st now)) = agent_refs st"
  by (simp add: finalize_def Let_def agent_refs_def)

lemma finalize_span_id [simp]:
  "RepoSpan.span_id (repoSpan (this (snd (finalize st now)))) =
     RepoSpan.span_id (repoSpan (this st))"
  by (simp add: finalize_def Let_def)

lemma finalize_end_time: "RepoSpan.end_time (fst (finalize st now)) = Some now"
  by (simp add: finalize_def Let_def)

lemma finalize_empty:
  "agent_refs st = [] \<Longrightarrow>
     RepoSpan.status (fst (finalize st now)) = FAILED \<and>
     RepoSpan.failure_reason (fst (finalize st now)) = Some ''No agent spans produced''"
  by (simp add: finalize_def Let_def agent_refs_def)

lemma finalize_nonempty_status:
  "agent_refs st \<noteq> [] \<Longrightarrow>
     RepoSpan.status (fst (finalize st now)) =
       (if list_ex (\<lambda>s. AgentSpan.status s = FAILED) (map (heap st) (agent_refs st))
        then FAILED else COMPLETED)"
  by (simp add: finalize_def Let_def agent_refs_def)

lemma finalize_nonempty_reason:
  "agent_refs st \<noteq> [] \<Longrightarrow>
   list_ex (\<lambda>s. AgentSpan.status s = FAILED) (map (heap st) (agent_refs st)) \<Longrightarrow>
     RepoSpan.failure_reason (fst (finalize st now)) =
       Some (join ''; '' (map failure_line
              (filter (\<lambda>s. AgentSpan.status s = FAILED) (map (heap st) (agent_refs st)))))"
  by (simp add: finalize_def Let_def agent_refs_def)

text \<open>What \<open>join\<close> builds: the first string, then each later one behind the separator.\<close>

lemma join_concat: "join sep (x # xs) = concat (x # map (\<lambda>l. sep @ l) xs)"
  by (induction xs arbitrary: x) simp_all

text \<open>
  C8. For every context and every store, \<open>finalize\<close> sets the repo span's \<open>end_time\<close>. With
  no agent spans the status is \<open>FAILED\<close> and the reason is exactly
  \<open>No agent spans produced\<close>. Otherwise the status is \<open>FAILED\<close> if and only if some agent
  span is \<open>FAILED\<close>, and \<open>COMPLETED\<close> if not. When it is \<open>FAILED\<close> there is a first failed span
  and the reason is its \<open>agent_name: failure_reason\<close>, followed for each later failed span,
  in order, by \<open>; \<close> and that span's \<open>agent_name: failure_reason\<close>. The returned repo span is
  the context's own, it lists the same spans as before, and no span object changes.
\<close>

theorem finalize_status:
  "(let r = fst (finalize st now); st' = snd (finalize st now);
        spans = map (heap st) (agent_refs st);
        failed = filter (\<lambda>s. AgentSpan.status s = FAILED) spans
    in RepoSpan.end_time r = Some now
     \<and> (spans = [] \<longrightarrow>
          RepoSpan.status r = FAILED \<and>
          RepoSpan.failure_reason r = Some ''No agent spans produced'')
     \<and> (spans \<noteq> [] \<longrightarrow>
          (RepoSpan.status r = FAILED \<longleftrightarrow> (\<exists>s \<in> set spans. AgentSpan.status s = FAILED))
        \<and> (RepoSpan.status r \<noteq> FAILED \<longrightarrow> RepoSpan.status r = COMPLETED)
        \<and> (RepoSpan.status r = FAILED \<longrightarrow>
              RepoSpan.failure_reason r = Some (join ''; '' (map failure_line failed))
            \<and> (\<exists>s rest. failed = s # rest \<and>
                  RepoSpan.failure_reason r =
                    Some (concat ((agent_name s @ '': '' @ template_str (AgentSpan.failure_reason s))
                           # map (\<lambda>t. ''; '' @ agent_name t @ '': ''
                                          @ template_str (AgentSpan.failure_reason t)) rest)))))
     \<and> agent_spans r = agent_refs st
     \<and> heap st' = heap st
     \<and> repoSpan (this st') = r)"
proof (cases "agent_refs st = []")
  case True
  then show ?thesis
    using finalize_empty[OF True, of now]
    by (simp add: Let_def finalize_end_time finalize_returns_repoSpan)
next
  case False
  show ?thesis
  proof (cases "list_ex (\<lambda>s. AgentSpan.status s = FAILED) (map (heap st) (agent_refs st))")
    case True
    then have "filter (\<lambda>s. AgentSpan.status s = FAILED) (map (heap st) (agent_refs st)) \<noteq> []"
      by (simp add: list_ex_iff filter_empty_conv)
    then obtain s rest where
      f: "filter (\<lambda>s. AgentSpan.status s = FAILED) (map (heap st) (agent_refs st)) = s # rest"
      by (cases "filter (\<lambda>s. AgentSpan.status s = FAILED) (map (heap st) (agent_refs st))") auto
    have j: "join ''; '' (map failure_line (s # rest)) =
               concat ((agent_name s @ '': '' @ template_str (AgentSpan.failure_reason s))
                 # map (\<lambda>t. ''; '' @ agent_name t @ '': ''
                                @ template_str (AgentSpan.failure_reason t)) rest)"
      by (simp add: join_concat failure_line_def comp_def)
    have r: "RepoSpan.failure_reason (fst (finalize st now)) =
               Some (join ''; '' (map failure_line (s # rest)))"
      using finalize_nonempty_reason[OF False True, of now] by (simp only: f)
    have s: "RepoSpan.status (fst (finalize st now)) = FAILED"
      using finalize_nonempty_status[OF False, of now] True by simp
    have e: "\<exists>s \<in> set (map (heap st) (agent_refs st)). AgentSpan.status s = FAILED"
      using True by (simp add: list_ex_iff)
    show ?thesis
      unfolding Let_def f
      using False e s r j
      by (simp add: finalize_end_time finalize_returns_repoSpan del: join.simps)
  next
    case none_failed: False
    then show ?thesis
      using False finalize_nonempty_status[OF False, of now]
      by (simp add: Let_def finalize_end_time finalize_returns_repoSpan list_ex_iff)
  qed
qed

lemma example_run_refs: "agent_refs example_run = [0, 1]"
  by (simp add: example_run_def example_ops_def example_context_def constructor_def
        startAgentSpan_def completeAgentSpan_def failAgentSpan_def Let_def agent_refs_def
        set_repoSpan_def)

lemma example_run_heap:
  "AgentSpan.status (heap example_run 0) = COMPLETED"
  "AgentSpan.status (heap example_run (Suc 0)) = FAILED"
  "failure_line (heap example_run (Suc 0)) = ''agent-2: Broke''"
  by (simp_all add: example_run_def example_ops_def example_context_def constructor_def
        startAgentSpan_def completeAgentSpan_def failAgentSpan_def Let_def agent_refs_def
        set_repoSpan_def failure_line_def template_str_def)

lemma failing_run_refs: "agent_refs failing_run = [0, 1, 2]"
  by (simp add: failing_run_def failing_ops_def example_context_def constructor_def
        startAgentSpan_def completeAgentSpan_def failAgentSpan_def Let_def agent_refs_def
        set_repoSpan_def)

lemma failing_run_heap:
  "AgentSpan.status (heap failing_run 0) = FAILED"
  "AgentSpan.status (heap failing_run (Suc 0)) = COMPLETED"
  "AgentSpan.status (heap failing_run 2) = FAILED"
  "failure_line (heap failing_run 0) = ''agent-1: Error 1''"
  "failure_line (heap failing_run 2) = ''agent-3: Error 3''"
  by (simp_all add: failing_run_def failing_ops_def example_context_def constructor_def
        startAgentSpan_def completeAgentSpan_def failAgentSpan_def Let_def agent_refs_def
        set_repoSpan_def failure_line_def template_str_def)

text \<open>
  The theorem at the context with a completed and a failed span, at the context with two
  failed spans around a completed one, and at a fresh context without spans.
\<close>

theorem finalize_status_witness:
  "map (heap example_run) (agent_refs example_run) \<noteq> []
   \<and> list_ex (\<lambda>s. AgentSpan.status s = FAILED) (map (heap example_run) (agent_refs example_run))
   \<and> RepoSpan.status (fst (finalize example_run ''t5'')) = FAILED
   \<and> RepoSpan.failure_reason (fst (finalize example_run ''t5'')) = Some ''agent-2: Broke''
   \<and> RepoSpan.end_time (fst (finalize example_run ''t5'')) = Some ''t5''
   \<and> agent_spans (fst (finalize example_run ''t5'')) = [0, 1]
   \<and> map (heap example_context) (agent_refs example_context) = []
   \<and> RepoSpan.status (fst (finalize example_context ''t5'')) = FAILED
   \<and> RepoSpan.failure_reason (fst (finalize example_context ''t5'')) =
        Some ''No agent spans produced''
   \<and> map (heap failing_run) (agent_refs failing_run) \<noteq> []
   \<and> list_ex (\<lambda>s. AgentSpan.status s = FAILED) (map (heap failing_run) (agent_refs failing_run))
   \<and> RepoSpan.status (fst (finalize failing_run ''t7'')) = FAILED
   \<and> RepoSpan.failure_reason (fst (finalize failing_run ''t7'')) =
        Some ''agent-1: Error 1; agent-3: Error 3''
   \<and> agent_spans (fst (finalize failing_run ''t7'')) = [0, 1, 2]"
proof -
  have c: "agent_refs example_context = []"
    by (simp add: example_context_def constructor_def agent_refs_def)
  show ?thesis
    using finalize_status[of example_run "''t5''"] finalize_status[of example_context "''t5''"]
      finalize_status[of failing_run "''t7''"]
    by (simp add: Let_def example_run_refs example_run_heap c failing_run_refs failing_run_heap)
qed

subsection \<open>Header extraction\<close>



subsection \<open>The span hierarchy\<close>

lemma hierarchy_inv_constructor: "hierarchy_inv (constructor h n eid pid uuid now)"
  by (simp add: hierarchy_inv_def constructor_def agent_refs_def)

lemma startAgentSpan_refs:
  "agent_refs (snd (startAgentSpan st name md uuid now)) = agent_refs st @ [next_ref st]"
  by (simp add: startAgentSpan_def Let_def)

lemma hierarchy_inv_startAgentSpan:
  "hierarchy_inv st \<Longrightarrow> hierarchy_inv (snd (startAgentSpan st name md uuid now))"
  by (auto simp: hierarchy_inv_def startAgentSpan_def Let_def list_all_iff set_repoSpan_def
        agent_refs_def)

lemma hierarchy_inv_completeAgentSpan:
  "hierarchy_inv st \<Longrightarrow> hierarchy_inv (completeAgentSpan st r now)"
  by (auto simp: hierarchy_inv_def completeAgentSpan_def list_all_iff agent_refs_def)

lemma hierarchy_inv_failAgentSpan:
  "hierarchy_inv st \<Longrightarrow> hierarchy_inv (failAgentSpan st r reason now)"
  by (auto simp: hierarchy_inv_def failAgentSpan_def list_all_iff agent_refs_def)

lemma hierarchy_inv_attachArtifact:
  "hierarchy_inv st \<Longrightarrow> hierarchy_inv (attachArtifact st r a)"
  by (auto simp: hierarchy_inv_def attachArtifact_def list_all_iff agent_refs_def)

lemma hierarchy_inv_finalize:
  "hierarchy_inv st \<Longrightarrow> hierarchy_inv (snd (finalize st now))"
  by (simp add: hierarchy_inv_def)

lemma buildResponse_snd: "snd (buildResponse st res now) = snd (finalize st now)"
  by (simp add: buildResponse_def split: prod.splits)

lemma hierarchy_inv_step: "hierarchy_inv st \<Longrightarrow> hierarchy_inv (step st op)"
  by (cases op)
     (simp_all add: hierarchy_inv_startAgentSpan hierarchy_inv_completeAgentSpan
        hierarchy_inv_failAgentSpan hierarchy_inv_attachArtifact hierarchy_inv_finalize
        buildResponse_snd)

lemma hierarchy_inv_run: "hierarchy_inv st \<Longrightarrow> hierarchy_inv (foldl step st ops)"
  by (induction ops arbitrary: st) (simp_all add: hierarchy_inv_step)

lemma agent_refs_completeAgentSpan [simp]:
  "agent_refs (completeAgentSpan st r now) = agent_refs st"
  by (simp add: completeAgentSpan_def agent_refs_def)

lemma agent_refs_failAgentSpan [simp]:
  "agent_refs (failAgentSpan st r reason now) = agent_refs st"
  by (simp add: failAgentSpan_def agent_refs_def)

lemma agent_refs_attachArtifact [simp]:
  "agent_refs (attachArtifact st r a) = agent_refs st"
  by (simp add: attachArtifact_def agent_refs_def)

lemma agent_refs_step_prefix: "prefix (agent_refs st) (agent_refs (step st op))"
  by (cases op) (simp_all add: startAgentSpan_refs buildResponse_snd)

lemma agent_refs_run_prefix: "prefix (agent_refs st) (agent_refs (foldl step st ops))"
proof (induction ops arbitrary: st)
  case Nil
  show ?case by simp
next
  case (Cons op ops)
  have "prefix (agent_refs st) (agent_refs (step st op))"
    by (rule agent_refs_step_prefix)
  also have "prefix (agent_refs (step st op)) (agent_refs (foldl step (step st op) ops))"
    by (rule Cons.IH)
  finally show ?case by simp
qed

lemma startAgentSpan_created:
  "(case startAgentSpan st name md uuid now of (r, st') \<Rightarrow>
      AgentSpan.status (heap st' r) = RUNNING \<and> artifacts (heap st' r) = [] \<and>
      AgentSpan.parent_span_id (heap st' r) = RepoSpan.span_id (repoSpan (this st)) \<and>
      AgentSpan.repo_name (heap st' r) = ''llm-forge'' \<and>
      agent_name (heap st' r) = name \<and>
      agent_refs st' = agent_refs st @ [r])"
  by (simp add: startAgentSpan_def Let_def)

text \<open>
  C10. The span hierarchy is an invariant of the class: a new context satisfies it with no
  spans, every method preserves it, and so it holds after any sequence of method calls on a
  new context. In it every span of the repo span has the repo span's \<open>span_id\<close> as
  \<open>parent_span_id\<close> and \<open>llm-forge\<close> as \<open>repo_name\<close>. The list of spans is append-only: after
  one method, and after any sequence of them, the old list is a prefix of the new one.
  \<open>startAgentSpan\<close> appends exactly the span it returns, created \<open>RUNNING\<close> with no
  artifacts.
\<close>

theorem span_hierarchy_invariant:
  "hierarchy_inv (constructor h n eid pid uuid0 now0)
   \<and> agent_refs (constructor h n eid pid uuid0 now0) = []
   \<and> (hierarchy_inv st \<longrightarrow> hierarchy_inv (step st op))
   \<and> hierarchy_inv (foldl step (constructor h n eid pid uuid0 now0) ops)
   \<and> prefix (agent_refs st) (agent_refs (step st op))
   \<and> prefix (agent_refs st) (agent_refs (foldl step st ops))
   \<and> (case startAgentSpan st name md uuid now of (r, st') \<Rightarrow>
        agent_refs st' = agent_refs st @ [r] \<and>
        AgentSpan.status (heap st' r) = RUNNING \<and> artifacts (heap st' r) = [] \<and>
        AgentSpan.parent_span_id (heap st' r) = RepoSpan.span_id (repoSpan (this st)) \<and>
        AgentSpan.repo_name (heap st' r) = ''llm-forge'')"
  using startAgentSpan_created[of st name md uuid now]
  by (simp add: hierarchy_inv_constructor hierarchy_inv_step hierarchy_inv_run
        agent_refs_step_prefix agent_refs_run_prefix split: prod.splits)
     (simp add: constructor_def agent_refs_def)

text \<open>The theorem at a new context, one \<open>startAgentSpan\<close> later, and after four calls.\<close>

theorem span_hierarchy_invariant_witness:
  "hierarchy_inv example_context
   \<and> hierarchy_inv (step example_context (StartAgentSpan ''agent-1'' None ''span-1'' ''t1''))
   \<and> agent_refs (step example_context (StartAgentSpan ''agent-1'' None ''span-1'' ''t1'')) = [0]
   \<and> hierarchy_inv example_run
   \<and> agent_refs example_run = [0, 1]"
proof -
  have i: "hierarchy_inv example_context"
    by (simp add: example_context_def hierarchy_inv_constructor)
  show ?thesis
    using i
      span_hierarchy_invariant[where h = "\<lambda>r. blank_span" and n = 0 and eid = "''exec-1''"
        and pid = "''parent-1''" and ?uuid0.0 = "''repo-span''" and ?now0.0 = "''t0''"
        and st = example_context and op = "StartAgentSpan ''agent-1'' None ''span-1'' ''t1''"
        and ops = example_ops]
    by (simp add: example_run_refs example_run_def[symmetric] example_context_def[symmetric]
          startAgentSpan_refs)
       (simp add: example_context_def constructor_def agent_refs_def)
qed

section \<open>Streaming-chunk parsers: properties\<close>

subsection \<open>Evaluation rules\<close>

lemma and_then_simps [simp]:
  "and_then (Inr v) f = f v"
  "and_then (Inl e) f = Inl e"
  by (simp_all add: and_then_def)

lemma truthy_opt_simps [simp]:
  "truthy_opt None = False"
  "truthy_opt (Some j) = truthy j"
  by (simp_all add: truthy_opt_def)

lemma truthy_opt_Some: "truthy_opt v \<Longrightarrow> v \<noteq> None"
  by (cases v) simp_all

lemma or_default_simps [simp]:
  "or_default None b = b"
  "or_default (Some v) b = (if truthy v then v else b)"
  by (simp_all add: or_default_def)

lemma isArray_simps [simp]:
  "isArray None = False"
  "isArray (Some (JArr xs)) = True"
  "isArray (Some JNull) = False"
  "isArray (Some (JBool b)) = False"
  "isArray (Some (JNum n)) = False"
  "isArray (Some (JStr s)) = False"
  "isArray (Some (JObj kvs)) = False"
  by (simp_all add: isArray_def)

lemma isArray_cases: "isArray v \<Longrightarrow> \<exists>xs. v = Some (JArr xs)"
  by (auto simp: isArray_def split: option.splits json.splits)

lemma get_prop_non_null: "v \<noteq> JNull \<Longrightarrow> \<exists>r. get_prop (Some v) k = Inr r"
  by (cases v) simp_all

text \<open>Where the plain read does not throw, optional chaining reads the same value.\<close>

lemma opt_prop_get_prop: "get_prop v k = Inr r \<Longrightarrow> opt_prop v k = r"
  by (cases "(v, k)" rule: get_prop.cases) simp_all

subsection \<open>The HuggingFace validator\<close>

lemma validate_obj:
  "HuggingFace_validateStreamChunk (JObj kvs) =
     (if truthy_opt (map_of kvs ''error'') \<or> map_of kvs ''token'' \<noteq> None
         \<or> isArray (map_of kvs ''choices'')
         \<or> map_of kvs ''generated_text'' \<noteq> None \<or> map_of kvs ''conversation'' \<noteq> None
      then Inr (True, [])
      else Inr (False, [''Invalid chunk: unrecognized format'']))"
  by (simp add: HuggingFace_validateStreamChunk_def and_also_def or_else_def)

lemma validate_not_obj:
  "\<forall>kvs. x \<noteq> JObj kvs \<Longrightarrow> \<exists>d. HuggingFace_validateStreamChunk x = Inr (False, d)"
  by (cases x) (simp_all add: HuggingFace_validateStreamChunk_def and_also_def or_else_def)

lemma validate_accepts_obj:
  "HuggingFace_validateStreamChunk x = Inr (True, d) \<Longrightarrow> \<exists>kvs. x = JObj kvs"
  using validate_not_obj[of x] by fastforce

text \<open>
  C2, as the claim states it, fails: the chunk \<open>{"error": null}\<close> has an \<open>error\<close> field and
  the validator rejects it, because line 903 tests the field's truthiness, not its presence.
\<close>

theorem validate_null_error_rejected:
  "has_field null_error ''error''
   \<and> HuggingFace_validateStreamChunk null_error =
       Inr (False, [''Invalid chunk: unrecognized format''])"
  by (simp add: null_error_def validate_obj has_field_def field_of_def)

text \<open>
  C2, amended. The HuggingFace \<open>validateStreamChunk\<close> never throws, and it accepts a chunk if
  and only if the chunk is an object with a truthy \<open>error\<close> field (present and not \<open>null\<close>,
  \<open>false\<close>, \<open>0\<close> or the empty string), a \<open>token\<close> field, an array-valued \<open>choices\<close> field, or a
  \<open>generated_text\<close> or \<open>conversation\<close> field. In particular every input that lacks all five
  fields is rejected, \<open>null\<close> and the empty object among them.
\<close>

theorem validate_characterised:
  "(\<exists>d. HuggingFace_validateStreamChunk x =
          Inr (truthy_opt (field_of x ''error'') \<or> has_field x ''token''
                 \<or> has_array_field x ''choices''
                 \<or> has_field x ''generated_text'' \<or> has_field x ''conversation'', d))
   \<and> (\<not> has_field x ''error'' \<and> \<not> has_field x ''token'' \<and> \<not> has_array_field x ''choices''
        \<and> \<not> has_field x ''generated_text'' \<and> \<not> has_field x ''conversation''
        \<longrightarrow> (\<exists>d. HuggingFace_validateStreamChunk x = Inr (False, d)))
   \<and> HuggingFace_validateStreamChunk JNull = Inr (False, [''Invalid chunk: must be an object''])
   \<and> HuggingFace_validateStreamChunk (JObj []) =
        Inr (False, [''Invalid chunk: unrecognized format''])"
proof -
  have ends:
    "HuggingFace_validateStreamChunk JNull = Inr (False, [''Invalid chunk: must be an object''])"
    "HuggingFace_validateStreamChunk (JObj []) =
       Inr (False, [''Invalid chunk: unrecognized format''])"
    by (simp_all add: validate_obj) (simp add: HuggingFace_validateStreamChunk_def)
  show ?thesis
  proof (cases "\<exists>kvs. x = JObj kvs")
    case True
    then obtain kvs where x: "x = JObj kvs" by blast
    show ?thesis
      unfolding x validate_obj
      using truthy_opt_Some[of "map_of kvs ''error''"] ends(1)
      by (simp add: field_of_def has_field_def has_array_field_def)
  next
    case False
    then have nx: "\<forall>kvs. x \<noteq> JObj kvs" by blast
    have f: "field_of x k = None" for k
      using nx by (cases x) (simp_all add: field_of_def)
    from validate_not_obj[OF nx]
    obtain d where d: "HuggingFace_validateStreamChunk x = Inr (False, d)"
      by blast
    show ?thesis
      using d ends by (simp add: f has_field_def has_array_field_def)
  qed
qed

text \<open>The amended claim at a chunk that has none of the five fields.\<close>

theorem validate_characterised_witness:
  "\<not> has_field unrecognised_chunk ''error'' \<and> \<not> has_field unrecognised_chunk ''token''
   \<and> \<not> has_array_field unrecognised_chunk ''choices''
   \<and> \<not> has_field unrecognised_chunk ''generated_text''
   \<and> \<not> has_field unrecognised_chunk ''conversation''
   \<and> HuggingFace_validateStreamChunk unrecognised_chunk =
        Inr (False, [''Invalid chunk: unrecognized format''])"
  using validate_characterised[of unrecognised_chunk]
  by (simp add: unrecognised_chunk_def has_field_def has_array_field_def field_of_def
        validate_obj)

subsection \<open>The HuggingFace parser\<close>

lemma HuggingFace_choice_total:
  assumes "choice \<noteq> JNull"
  shows "\<exists>r. HuggingFace_choice h choice = Inr r"
proof -
  obtain d where d: "get_prop (Some choice) ''delta'' = Inr d"
    using get_prop_non_null[OF assms] by blast
  obtain i where i: "get_prop (Some choice) ''index'' = Inr i"
    using get_prop_non_null[OF assms] by blast
  obtain fr where fr: "get_prop (Some choice) ''finish_reason'' = Inr fr"
    using get_prop_non_null[OF assms] by blast
  show ?thesis
    by (simp add: HuggingFace_choice_def d i fr)
qed

lemma HuggingFace_choice_null: "HuggingFace_choice h JNull = Inl TypeError"
  by (simp add: HuggingFace_choice_def)

lemma HuggingFace_choices_total:
  "JNull \<notin> set xs \<Longrightarrow> \<exists>r. HuggingFace_choices h xs = Inr r"
proof (induction xs)
  case Nil
  show ?case by simp
next
  case (Cons x xs)
  then obtain a where a: "HuggingFace_choice h x = Inr a"
    using HuggingFace_choice_total[of x h] by auto
  from Cons obtain b where b: "HuggingFace_choices h xs = Inr b" by auto
  show ?case by (simp add: a b)
qed

lemma HuggingFace_choices_null:
  "JNull \<in> set xs \<Longrightarrow> HuggingFace_choices h xs = Inl TypeError"
proof (induction xs)
  case Nil
  then show ?case by simp
next
  case (Cons x xs)
  show ?case
  proof (cases "x = JNull")
    case True
    then show ?thesis by (simp add: HuggingFace_choice_null)
  next
    case False
    then obtain a where a: "HuggingFace_choice h x = Inr a"
      using HuggingFace_choice_total[of x h] by auto
    from False Cons have "HuggingFace_choices h xs = Inl TypeError" by simp
    then show ?thesis by (simp add: a)
  qed
qed

lemma HuggingFace_parse_array:
  "map_of kvs ''choices'' = Some (JArr xs) \<Longrightarrow>
   HuggingFace_parseStreamChunk h (JObj kvs) =
     and_then (HuggingFace_choices h xs) (\<lambda>chunks'.
       Inr \<lparr>id' = or_default (map_of kvs ''id'') (JStr (generateId h)),
            provider = this_provider h,
            model = extractModelInfo h (JObj kvs),
            chunks = chunks',
            metadata = \<lparr>timestamp = getCurrentTimestamp h,
                         complete = Some (truthy_opt (map_of kvs ''generated_text'') \<or>
                           truthy_opt (opt_prop (map_of kvs ''details'') ''finish_reason''))\<rparr>,
            error = extractError h (JObj kvs)\<rparr>)"
  by (simp add: HuggingFace_parseStreamChunk_def and_also_def iterate_def Let_def)

lemma HuggingFace_parse_no_array:
  "\<not> isArray (map_of kvs ''choices'') \<Longrightarrow>
   HuggingFace_parseStreamChunk h (JObj kvs) =
       Inr \<lparr>id' = or_default (map_of kvs ''id'') (JStr (generateId h)),
            provider = this_provider h,
            model = extractModelInfo h (JObj kvs),
            chunks = (if map_of kvs ''token'' \<noteq> None \<and>
                         truthy_opt (opt_prop (map_of kvs ''token'') ''text'')
                      then [text_delta (opt_prop (map_of kvs ''token'') ''text'') None]
                      else []),
            metadata = \<lparr>timestamp = getCurrentTimestamp h,
                         complete = Some (truthy_opt (map_of kvs ''generated_text'') \<or>
                           truthy_opt (opt_prop (map_of kvs ''details'') ''finish_reason''))\<rparr>,
            error = extractError h (JObj kvs)\<rparr>"
  by (simp add: HuggingFace_parseStreamChunk_def and_also_def iterate_def Let_def)

text \<open>
  The parser returns on every validated chunk whose \<open>choices\<close> array, if it has one, holds
  no \<open>null\<close>, and it throws on every chunk whose \<open>choices\<close> array holds a \<open>null\<close>.
\<close>

lemma HuggingFace_guarded_total:
  assumes "HuggingFace_validateStreamChunk x = Inr (True, d)"
    and "\<And>xs. field_of x ''choices'' = Some (JArr xs) \<Longrightarrow> JNull \<notin> set xs"
  shows "\<exists>r. HuggingFace_parseStreamChunk h x = Inr r"
proof -
  from assms(1) obtain kvs where x: "x = JObj kvs"
    using validate_accepts_obj by blast
  show ?thesis
  proof (cases "isArray (map_of kvs ''choices'')")
    case True
    then obtain xs where xs: "map_of kvs ''choices'' = Some (JArr xs)"
      using isArray_cases by blast
    then have "JNull \<notin> set xs"
      using assms(2)[of xs] by (simp add: x field_of_def)
    then obtain r where "HuggingFace_choices h xs = Inr r"
      using HuggingFace_choices_total by blast
    then show ?thesis
      by (simp add: x HuggingFace_parse_array[OF xs])
  next
    case False
    then show ?thesis
      by (simp add: x HuggingFace_parse_no_array)
  qed
qed

lemma HuggingFace_raises:
  assumes "field_of x ''choices'' = Some (JArr xs)" and "JNull \<in> set xs"
  shows "HuggingFace_parseStreamChunk h x = Inl TypeError"
proof -
  from assms(1) obtain kvs where x: "x = JObj kvs"
    by (cases x) (simp_all add: field_of_def)
  have xs: "map_of kvs ''choices'' = Some (JArr xs)"
    using assms(1) by (simp add: x field_of_def)
  show ?thesis
    by (simp add: x HuggingFace_parse_array[OF xs] HuggingFace_choices_null[OF assms(2)])
qed

lemma HuggingFace_error_attached:
  "HuggingFace_parseStreamChunk h x = Inr r \<Longrightarrow> error r = extractError h x"
  by (auto simp: HuggingFace_parseStreamChunk_def Let_def and_then_def split: sum.splits)

text \<open>
  The two methods proposed for the class (lines 894-985) on \<open>{"choices": [null]}\<close>: the
  validator accepts the chunk, since \<open>choices\<close> is an array, and the parser throws at line
  946, where \<open>choice.delta\<close> is read from \<open>null\<close>.
\<close>

lemma HuggingFace_proposed_null_choice:
  "HuggingFace_validateStreamChunk null_choice = Inr (True, [])
   \<and> HuggingFace_parseStreamChunk h null_choice = Inl TypeError"
  by (simp add: null_choice_def validate_obj HuggingFace_raises[of _ "[JNull]"] field_of_def)

text \<open>
  C6. On the token-based chunk \<open>{"token": {"text": "Hello"}}\<close> the HuggingFace validator
  accepts and the parser returns exactly one event, a \<open>content_block_delta\<close> with text
  \<open>Hello\<close>; the response carries no error whenever \<open>extractError\<close>, whose code is not in the
  sources, finds none in this chunk.
\<close>

theorem HuggingFace_scenario_A:
  "extractError h scenario_A = None \<Longrightarrow>
     HuggingFace_validateStreamChunk scenario_A = Inr (True, [])
   \<and> HuggingFace_parseStreamChunk h scenario_A =
       Inr \<lparr>id' = JStr (generateId h),
            provider = this_provider h,
            model = extractModelInfo h scenario_A,
            chunks = [\<lparr>StreamChunk.type = content_block_delta,
                       delta = Some \<lparr>text' = Some (JStr ''Hello''), stopReason = None\<rparr>,
                       contentBlock = None, index = None\<rparr>],
            metadata = \<lparr>timestamp = getCurrentTimestamp h, complete = Some False\<rparr>,
            error = None\<rparr>"
  by (simp add: scenario_A_def validate_obj HuggingFace_parse_no_array text_delta_def)

text \<open>The theorem with the error extraction the specification describes.\<close>

theorem HuggingFace_scenario_A_witness:
  "extractError example_helpers scenario_A = None
   \<and> HuggingFace_parseStreamChunk example_helpers scenario_A =
       Inr \<lparr>id' = JStr ''generated-id'',
            provider = ''huggingface'',
            model = JStr ''unknown'',
            chunks = [\<lparr>StreamChunk.type = content_block_delta,
                       delta = Some \<lparr>text' = Some (JStr ''Hello''), stopReason = None\<rparr>,
                       contentBlock = None, index = None\<rparr>],
            metadata = \<lparr>timestamp = ''2025-11-08T00:00:00.000Z'', complete = Some False\<rparr>,
            error = None\<rparr>"
proof -
  have e: "extractError example_helpers scenario_A = None"
    by (simp add: example_helpers_def extractError_spec_def scenario_A_def)
  show ?thesis
    using e HuggingFace_scenario_A[OF e]
    by (simp add: example_helpers_def scenario_A_def field_of_def)
qed

subsection \<open>The Together AI parser\<close>

text \<open>The shipped method returns on every input, with no events and no error.\<close>

lemma Together_total:
  "\<exists>r. Together_parseStreamChunk h x = Inr r \<and> chunks r = [] \<and> error r = None"
  by (simp add: Together_parseStreamChunk_def)

text \<open>
  C1. Whenever \<open>validateStreamChunk\<close> returns true on a chunk, the shipped \<open>parseStreamChunk\<close>
  (lines 994-1005) does not raise: it returns a response, here with an empty sequence of
  events and no error. The validator of that class is not in the sources, so it is an
  arbitrary predicate \<open>validate\<close>; the method never reads its argument, so the response is
  there for every chunk.
\<close>

theorem Together_validated_chunk_parses:
  "validate x \<Longrightarrow>
     \<exists>r. Together_parseStreamChunk h x = Inr r \<and> chunks r = [] \<and> error r = None"
  by (simp add: Together_parseStreamChunk_def)

text \<open>
  The theorem with a validator that checks that the chunk is an object (how the report
  describes the shipped one, line 245), at the chunk of scenario B and at
  \<open>{"choices": [null]}\<close>.
\<close>

theorem Together_validated_chunk_parses_witness:
  "js_typeof scenario_B = ''object''
   \<and> (\<exists>r. Together_parseStreamChunk example_helpers scenario_B = Inr r \<and> chunks r = []
           \<and> error r = None)
   \<and> js_typeof null_choice = ''object''
   \<and> (\<exists>r. Together_parseStreamChunk example_helpers null_choice = Inr r \<and> chunks r = []
           \<and> error r = None)"
proof -
  have v: "js_typeof scenario_B = ''object''" "js_typeof null_choice = ''object''"
    by (simp_all add: scenario_B_def null_choice_def)
  show ?thesis
    using v
      Together_validated_chunk_parses[of "\<lambda>c. js_typeof c = ''object''" scenario_B
        example_helpers, OF v(1)]
      Together_validated_chunk_parses[of "\<lambda>c. js_typeof c = ''object''" null_choice
        example_helpers, OF v(2)]
    by simp
qed

text \<open>The repaired method attaches what \<open>extractError\<close> finds whenever it returns.\<close>

lemma Together_fixed_error_attached:
  "Together_parseStreamChunk_fixed h x = Inr r \<Longrightarrow> error r = extractError h x"
  by (auto simp: Together_parseStreamChunk_fixed_def Let_def and_then_def split: sum.splits)

text \<open>The repaired method on the chunk of scenario B: a text delta, then the stop event.\<close>

lemma Together_fixed_scenario_B:
  "Together_parseStreamChunk_fixed h scenario_B =
     Inr \<lparr>id' = JStr (generateId h), provider = this_provider h,
          model = createModelInfo h (JStr ''unknown'') (this_provider h),
          chunks = [\<lparr>StreamChunk.type = content_block_delta,
                     delta = Some \<lparr>text' = Some (JStr ''Hi''), stopReason = None\<rparr>,
                     contentBlock = None, index = Some (JNum 0)\<rparr>,
                    \<lparr>StreamChunk.type = message_stop,
                     delta = Some \<lparr>text' = None,
                                   stopReason = Some (normalizeStopReason h (JStr ''stop''))\<rparr>,
                     contentBlock = None, index = None\<rparr>],
          metadata = \<lparr>timestamp = getCurrentTimestamp h, complete = None\<rparr>,
          error = extractError h scenario_B\<rparr>"
  by (simp add: Together_parseStreamChunk_fixed_def scenario_B_def iterate_def Let_def
        Together_choice_def text_delta_def stop_event_def)

text \<open>
  C4. The claim: a chunk with a top-level \<open>error\<close> object yields a response whose \<open>error\<close>
  field is populated, also when \<open>choices\<close> is present. The shipped Together AI method of
  lines 994-1005 returns a response without error on the error chunk of scenario D and on
  an error chunk that also has \<open>choices\<close>.
\<close>

theorem Together_error_dropped:
  "(\<exists>r. Together_parseStreamChunk h scenario_D = Inr r \<and> error r = None)
   \<and> (\<exists>r. Together_parseStreamChunk h error_with_choices = Inr r \<and> error r = None)"
  by (simp add: Together_parseStreamChunk_def)

text \<open>
  C5. The claim: on the chunk of scenario B the Together-style parser emits a
  \<open>content_block_delta\<close> for index 0 with text \<open>Hi\<close> and then a \<open>message_stop\<close>. The shipped
  Together AI method of lines 994-1005 emits no event on it.
\<close>

theorem Together_scenario_B_empty:
  "\<exists>r. Together_parseStreamChunk h scenario_B = Inr r \<and> chunks r = []"
  by (simp add: Together_parseStreamChunk_def)

subsection \<open>Metadata against implementation\<close>

text \<open>The class as the report finds it has no validator: the call fails on every chunk.\<close>

lemma HuggingFace_never_validates:
  "call_validateStreamChunk HuggingFaceProvider x = Inl TypeError"
  by (simp add: call_validateStreamChunk_def HuggingFaceProvider_def)

text \<open>With the two methods of lines 894-985 added, the \<open>streaming\<close> flag is truthful.\<close>

lemma HuggingFace_completed_truthful:
  "extractError h scenario_A = None \<Longrightarrow>
     metadata_truthful HuggingFaceProvider_completed h [scenario_A]"
  by (simp add: metadata_truthful_def non_error_output_def call_parseStreamChunk_def
        HuggingFaceProvider_completed_def scenario_A_def HuggingFace_parse_no_array)

text \<open>
  C3. The claim: a provider whose metadata reports \<open>streaming\<close> has a \<open>parseStreamChunk\<close>
  that produces non-error output for at least one documented chunk shape. The HuggingFace
  class as the report finds it reports \<open>streaming\<close> and has no \<open>parseStreamChunk\<close>: calling it
  fails on every chunk, so no list of shapes makes the flag truthful.
\<close>

theorem HuggingFace_streaming_flag_false:
  "streaming (capabilities (getMetadata HuggingFaceProvider))
   \<and> parseStreamChunk HuggingFaceProvider = None
   \<and> call_parseStreamChunk HuggingFaceProvider h chunk = Inl TypeError
   \<and> \<not> metadata_truthful HuggingFaceProvider h shapes"
  by (simp add: HuggingFaceProvider_def HuggingFace_capabilities_def call_parseStreamChunk_def
        metadata_truthful_def non_error_output_def list_ex_iff)

subsection \<open>Finish-reason normalization\<close>

text \<open>
  C7. The finish-reason normalization is a total function on strings: for every table and
  every provider-native string the result is one member of the closed enumeration, it is
  the table's entry when the string is mapped, and it is \<open>unknown\<close> when the string is not.
\<close>

theorem normalizeStopReason_total:
  "normalizeStopReason_spec table reason
     \<in> {STOP, LENGTH, TOOL_CALLS, CONTENT_FILTER, ERROR, UNKNOWN}
   \<and> (\<forall>r. map_of table reason = Some r \<longrightarrow> normalizeStopReason_spec table reason = r)
   \<and> (map_of table reason = None \<longrightarrow> normalizeStopReason_spec table reason = UNKNOWN)"
  by (cases "normalizeStopReason_spec table reason") (simp_all add: normalizeStopReason_spec_def)

text \<open>The theorem at an unmapped and at a mapped string.\<close>

theorem normalizeStopReason_total_witness:
  "map_of example_table ''eos_token'' = None
   \<and> normalizeStopReason_spec example_table ''eos_token'' = UNKNOWN
   \<and> map_of example_table ''stop'' = Some STOP
   \<and> normalizeStopReason_spec example_table ''stop'' = STOP"
  using normalizeStopReason_total[of example_table "''eos_token''"]
        normalizeStopReason_total[of example_table "''stop''"]
  by (simp add: example_table_def)

end
